theory Spec2Isabelle
  imports Complex_Main "HOL-Library.Sublist"
begin

section \<open>Audio feature classifier (\<^verbatim>\<open>librosa_audio.py\<close>, class \<^verbatim>\<open>LocalAudioAnalyzer\<close>)\<close>

text \<open>
  The classifier works on scalars that the signal library has already computed. The
  Python floats are read as the real numbers they denote, so every comparison of the
  source is the same comparison here; the library calls themselves (\<^verbatim>\<open>np.mean\<close>,
  \<^verbatim>\<open>np.std\<close>, \<^verbatim>\<open>librosa.feature.*\<close>) are outside the model and their results are the
  arguments.
\<close>

text \<open>
  \<^verbatim>\<open>_detect_audio_type\<close>, from the two statistics \<^verbatim>\<open>zcr_mean\<close> and \<^verbatim>\<open>sc_std\<close> on.
\<close>

definition detect_audio_type :: "real \<Rightarrow> real \<Rightarrow> string" where
  "detect_audio_type zcr_mean sc_std =
     (if zcr_mean > 0.1 \<and> sc_std < 1000 then ''speech''
      else if zcr_mean < 0.08 \<and> sc_std > 1000 then ''music''
      else ''mixed'')"

text \<open>The entries of the \<^verbatim>\<open>features\<close> dictionary that \<^verbatim>\<open>_analyze_mood\<close> reads.\<close>

record features =
  tempo :: real
  rms_energy_mean :: real
  spectral_centroid_mean :: real

text \<open>The dictionary that \<^verbatim>\<open>_analyze_mood\<close> returns.\<close>

record mood_result =
  mood :: string
  valence :: string
  arousal :: string
  mood_tempo :: real
  energy :: real

text \<open>The literal \<^verbatim>\<open>mood_map\<close>, keyed by the pair (valence, arousal), in source order.\<close>

definition mood_map :: "((string \<times> string) \<times> string) list" where
  "mood_map =
     [((''positive'', ''high''), ''Happy/Energetic''),
      ((''positive'', ''medium''), ''Content/Pleasant''),
      ((''positive'', ''low''), ''Peaceful/Relaxed''),
      ((''neutral'', ''high''), ''Excited/Tense''),
      ((''neutral'', ''medium''), ''Neutral/Balanced''),
      ((''neutral'', ''low''), ''Calm/Subdued''),
      ((''negative'', ''high''), ''Angry/Aggressive''),
      ((''negative'', ''medium''), ''Melancholic/Somber''),
      ((''negative'', ''low''), ''Sad/Depressing'')]"

text \<open>\<^verbatim>\<open>dict.get(key, default)\<close> on an association list.\<close>

definition dict_get :: "('k \<times> 'v) list \<Rightarrow> 'k \<Rightarrow> 'v \<Rightarrow> 'v" where
  "dict_get d k dflt = (case map_of d k of Some v \<Rightarrow> v | None \<Rightarrow> dflt)"

definition mood_valence :: "real \<Rightarrow> real \<Rightarrow> string" where
  "mood_valence spectral_centroid en =
     (if spectral_centroid > 2000 \<and> en > 0.1 then ''positive''
      else if spectral_centroid < 1500 \<and> en < 0.08 then ''negative''
      else ''neutral'')"

definition mood_arousal :: "real \<Rightarrow> real \<Rightarrow> string" where
  "mood_arousal tp en =
     (if tp > 120 \<or> en > 0.15 then ''high''
      else if tp < 90 \<and> en < 0.08 then ''low''
      else ''medium'')"

definition analyze_mood :: "features \<Rightarrow> mood_result" where
  "analyze_mood f =
     (let tp = tempo f;
          en = rms_energy_mean f;
          spectral_centroid = spectral_centroid_mean f;
          v = mood_valence spectral_centroid en;
          a = mood_arousal tp en;
          m = dict_get mood_map (v, a) ''Unknown''
      in \<lparr>mood = m, valence = v, arousal = a, mood_tempo = tp, energy = en\<rparr>)"

text \<open>
  The instrumentalness and harmonic-ratio expressions of \<^verbatim>\<open>_analyze_music\<close>, from
  the two energies \<^verbatim>\<open>np.sum(y_harmonic**2)\<close> and \<^verbatim>\<open>np.sum(y_percussive**2)\<close> on.
\<close>

definition instrumentalness :: "real \<Rightarrow> real \<Rightarrow> real" where
  "instrumentalness harmonic_energy percussive_energy =
     (let total_energy = harmonic_energy + percussive_energy
      in if total_energy > 0 then harmonic_energy / (total_energy + 1 / 10 ^ 10) else 0.5)"

definition harmonic_ratio :: "real \<Rightarrow> real" where
  "harmonic_ratio harmonic_energy = harmonic_energy / (harmonic_energy + 1 / 10 ^ 6)"


section \<open>Frame sampler\<close>

text \<open>
  Python's \<^verbatim>\<open>int(x)\<close> on a float truncates toward zero. The float products and
  quotients of the source are read as exact real arithmetic here, which is what the
  source computes whenever the exact result is representable (integers below \<open>2^53\<close>
  and dyadic fractions such as \<open>0.75\<close>).
\<close>

definition py_int :: "real \<Rightarrow> int" where
  "py_int x = (if x \<ge> 0 then \<lfloor>x\<rfloor> else \<lceil>x\<rceil>)"

text \<open>
  \<^verbatim>\<open>_analyze_video_frames\<close> (\<^verbatim>\<open>tests/multimodal_service.py\<close>), the block
  "Calculate timeframe boundaries": the pair \<^verbatim>\<open>(start_frame, end_frame)\<close>. The window
  is used only when both times are given.
\<close>

definition timeframe_boundaries ::
  "int \<Rightarrow> real \<Rightarrow> real option \<Rightarrow> real option \<Rightarrow> int \<times> int" where
  "timeframe_boundaries total_frames fps start_time end_time =
     (case (start_time, end_time) of
        (Some st, Some et) \<Rightarrow>
          (let start_frame0 = py_int (st * fps);
               end_frame0 = py_int (et * fps);
               start_frame = max 0 (min start_frame0 (total_frames - 1));
               end_frame = max (start_frame + 1) (min end_frame0 total_frames)
           in (start_frame, end_frame))
      | _ \<Rightarrow> (0, total_frames))"

text \<open>
  The block "Calculate frame indices to extract within the timeframe".
  \<^verbatim>\<open>range(a, b)\<close> is the integer interval \<open>[a..b - 1]\<close>, empty when \<open>b \<le> a\<close>;
  \<^verbatim>\<open>i * timeframe_frames / num_frames\<close> is Python's true division.
\<close>

definition frame_indices :: "int \<Rightarrow> int \<Rightarrow> int \<Rightarrow> int list" where
  "frame_indices start_frame end_frame num_frames =
     (let timeframe_frames = end_frame - start_frame
      in if timeframe_frames < num_frames then [start_frame..end_frame - 1]
         else map (\<lambda>i. start_frame
                         + py_int (real_of_int (i * timeframe_frames) / real_of_int num_frames))
                  [0..num_frames - 1])"

definition sample_frames ::
  "int \<Rightarrow> real \<Rightarrow> int \<Rightarrow> real option \<Rightarrow> real option \<Rightarrow> int list" where
  "sample_frames total_frames fps num_frames start_time end_time =
     (case timeframe_boundaries total_frames fps start_time end_time of
        (start_frame, end_frame) \<Rightarrow> frame_indices start_frame end_frame num_frames)"

text \<open>
  \<^verbatim>\<open>VideoService._extract_frames\<close> (\<^verbatim>\<open>app/services/video_service.py\<close>): the list
  \<^verbatim>\<open>frame_indices\<close>. Both branches on \<^verbatim>\<open>sampling_method\<close> build the same list.
\<close>

definition extract_frame_indices :: "int \<Rightarrow> int \<Rightarrow> int list" where
  "extract_frame_indices total_frames num_frames =
     map (\<lambda>i. py_int (real_of_int (i * total_frames) / real_of_int num_frames))
         [0..num_frames - 1]"


section \<open>Strings\<close>

text \<open>\<^verbatim>\<open>sep.join(parts)\<close>.\<close>

fun join :: "string \<Rightarrow> string list \<Rightarrow> string" where
  "join sep [] = []"
| "join sep [x] = x"
| "join sep (x # y # ys) = x @ sep @ join sep (y # ys)"

text \<open>\<^verbatim>\<open>str.lower\<close> on ASCII text: the letters \<open>A\<close> to \<open>Z\<close> move down by 32.\<close>

definition lower_char :: "char \<Rightarrow> char" where
  "lower_char c =
     (let n = (of_char c :: nat) in if 65 \<le> n \<and> n \<le> 90 then char_of (n + 32) else c)"

definition lower :: "string \<Rightarrow> string" where
  "lower s = map lower_char s"

text \<open>\<^verbatim>\<open>s.endswith(ext)\<close> and \<^verbatim>\<open>s.startswith(p)\<close>.\<close>

definition endswith :: "string \<Rightarrow> string \<Rightarrow> bool" where
  "endswith s ext = suffix ext s"

definition startswith :: "string \<Rightarrow> string \<Rightarrow> bool" where
  "startswith s p = prefix p s"

section \<open>Batch orchestrator (\<^verbatim>\<open>app/routers/batch.py\<close>)\<close>

text \<open>
  An uploaded file, as far as the router looks at it. \<^verbatim>\<open>filename\<close> and
  \<^verbatim>\<open>content_type\<close> may be \<^verbatim>\<open>None\<close>.
\<close>

record upload_file =
  filename :: "string option"
  content_type :: "string option"

text \<open>
  A raised exception is the left summand and carries \<^verbatim>\<open>str(e)\<close>.
  \<^verbatim>\<open>_determine_file_type\<close> raises \<^verbatim>\<open>ValueError\<close> in two places.
\<close>

definition determine_file_type :: "upload_file \<Rightarrow> string + string" where
  "determine_file_type file =
     (case filename file of
        None \<Rightarrow> Inl ''No filename provided''
      | Some name \<Rightarrow>
          if name = [] then Inl ''No filename provided''
          else
            let filename_lower = lower name;
                image_exts = [''.jpg'', ''.jpeg'', ''.png'', ''.webp'', ''.bmp'', ''.gif''];
                video_exts = [''.mp4'', ''.avi'', ''.mov'', ''.mkv''];
                audio_exts = [''.mp3'', ''.wav'', ''.m4a'', ''.flac'', ''.ogg'']
            in if list_ex (endswith filename_lower) image_exts then Inr ''image''
               else if list_ex (endswith filename_lower) video_exts then Inr ''video''
               else if list_ex (endswith filename_lower) audio_exts then Inr ''audio''
               else
                 (case content_type file of
                    Some ct \<Rightarrow>
                      if ct = [] then Inl (''Unable to determine file type for '' @ name)
                      else
                        let ct_lower = lower ct
                        in if startswith ct_lower ''image/'' then Inr ''image''
                           else if startswith ct_lower ''video/'' then Inr ''video''
                           else if startswith ct_lower ''audio/'' then Inr ''audio''
                           else Inl (''Unable to determine file type for '' @ name)
                  | None \<Rightarrow> Inl (''Unable to determine file type for '' @ name)))"

text \<open>
  The three services the router dispatches to. Each is an external call that reads and
  changes the state of the process (\<open>'s\<close>: loaded models, temporary files) and either
  returns a result (\<open>'r\<close>) or raises; \<open>Inl msg\<close> is a raised exception with
  \<^verbatim>\<open>str(e) = msg\<close>.
\<close>

record ('s, 'r) services =
  analyze_image :: "upload_file \<Rightarrow> 's \<Rightarrow> (string + 'r) \<times> 's"
  analyze_video :: "upload_file \<Rightarrow> 's \<Rightarrow> (string + 'r) \<times> 's"
  transcribe_audio :: "upload_file \<Rightarrow> 's \<Rightarrow> (string + 'r) \<times> 's"

text \<open>
  The body of the inner \<^verbatim>\<open>try\<close>: the file type, then the service for it. The
  outcome is the exception message or the pair of file type and result.
\<close>

definition analyze_file ::
  "('s, 'r) services \<Rightarrow> upload_file \<Rightarrow> 's \<Rightarrow> (string + (string \<times> 'r)) \<times> 's" where
  "analyze_file svc file s =
     (case determine_file_type file of
        Inl msg \<Rightarrow> (Inl msg, s)
      | Inr ftype \<Rightarrow>
          let call =
                (if ftype = ''image'' then Some (analyze_image svc)
                 else if ftype = ''video'' then Some (analyze_video svc)
                 else if ftype = ''audio'' then Some (transcribe_audio svc)
                 else None)
          in (case call of
                None \<Rightarrow> (Inl (''Unsupported file type: '' @ ftype), s)
              | Some service \<Rightarrow>
                  (case service file s of
                     (Inl msg, s') \<Rightarrow> (Inl msg, s')
                   | (Inr res, s') \<Rightarrow> (Inr (ftype, res), s'))))"

text \<open>
  One entry of \<^verbatim>\<open>results\<close>. A key that the dictionary does not have is \<open>None\<close>:
  a success entry has no \<^verbatim>\<open>error\<close>, a failure entry has no \<^verbatim>\<open>file_type\<close> and no
  \<^verbatim>\<open>result\<close>.
\<close>

record 'r item_result =
  file_index :: nat
  item_filename :: "string option"
  file_type :: "string option"
  success :: bool
  result :: "'r option"
  error :: "string option"

definition item_result_of :: "nat \<Rightarrow> upload_file \<Rightarrow> string + (string \<times> 'r) \<Rightarrow> 'r item_result" where
  "item_result_of i file outcome =
     (case outcome of
        Inr (ftype, res) \<Rightarrow>
          \<lparr>file_index = i, item_filename = filename file, file_type = Some ftype,
           success = True, result = Some res, error = None\<rparr>
      | Inl msg \<Rightarrow>
          \<lparr>file_index = i, item_filename = filename file, file_type = None,
           success = False, result = None, error = Some msg\<rparr>)"

text \<open>
  The loop \<^verbatim>\<open>for i, file in enumerate(files)\<close>: every iteration appends one entry,
  from either the \<^verbatim>\<open>try\<close> or the \<^verbatim>\<open>except Exception\<close> branch, and the next
  iteration starts from the state the previous one left.
\<close>

fun process_files ::
  "('s, 'r) services \<Rightarrow> nat \<Rightarrow> upload_file list \<Rightarrow> 's \<Rightarrow> 'r item_result list \<times> 's" where
  "process_files svc i [] s = ([], s)"
| "process_files svc i (file # files) s =
     (case analyze_file svc file s of
        (outcome, s1) \<Rightarrow>
          (case process_files svc (Suc i) files s1 of
             (rest, s2) \<Rightarrow> (item_result_of i file outcome # rest, s2)))"

datatype http_error = HTTPException nat string

text \<open>The \<^verbatim>\<open>data\<close> of the success response, without the elapsed time.\<close>

record 'r batch_data =
  results :: "'r item_result list"
  total_files :: nat
  successful :: nat
  failed :: nat

text \<open>
  \<^verbatim>\<open>analyze_batch\<close>. \<open>is_ready\<close> is \<^verbatim>\<open>model_manager.is_ready()\<close>. The state is
  returned in every case, so that a rejected request shows the state it left.
\<close>

definition analyze_batch ::
  "bool \<Rightarrow> ('s, 'r) services \<Rightarrow> upload_file list \<Rightarrow> 's \<Rightarrow> (http_error + 'r batch_data) \<times> 's" where
  "analyze_batch is_ready svc files s =
     (if \<not> is_ready then
        (Inl (HTTPException 503
               ''Models not loaded. Please wait for initialization to complete.''), s)
      else if length files > 10 then
        (Inl (HTTPException 400 ''Maximum 10 files allowed per batch request''), s)
      else
        (case process_files svc 0 files s of
           (rs, s') \<Rightarrow>
             (Inr \<lparr>results = rs,
                   total_files = length files,
                   successful = length (filter (\<lambda>r. success r) rs),
                   failed = length (filter (\<lambda>r. \<not> success r) rs)\<rparr>, s')))"


section \<open>Video service (\<^verbatim>\<open>app/services/video_service.py\<close>)\<close>

text \<open>\<^verbatim>\<open>frame_idx / fps if fps > 0 else 0\<close>, as both video pipelines compute it.\<close>

definition frame_timestamp :: "real \<Rightarrow> int \<Rightarrow> real" where
  "frame_timestamp fps frame_idx = (if fps > 0 then real_of_int frame_idx / fps else 0)"

text \<open>An entry of \<^verbatim>\<open>frames_data\<close>; the decoded image is opaque (\<open>'img\<close>).\<close>

record 'img frame_data =
  image :: 'img
  fd_frame_number :: int
  fd_timestamp :: real

text \<open>
  The decoding loop of \<^verbatim>\<open>_extract_frames\<close>. \<open>read_frame idx\<close> is the seek to
  \<open>idx\<close> followed by \<^verbatim>\<open>cap.read()\<close>: \<open>None\<close> when \<^verbatim>\<open>ret\<close> is false, in which
  case the index contributes nothing.
\<close>

fun decode_frames :: "(int \<Rightarrow> 'img option) \<Rightarrow> real \<Rightarrow> int list \<Rightarrow> 'img frame_data list" where
  "decode_frames read_frame fps [] = []"
| "decode_frames read_frame fps (frame_idx # rest) =
     (case read_frame frame_idx of
        Some img \<Rightarrow>
          \<lparr>image = img, fd_frame_number = frame_idx,
           fd_timestamp = frame_timestamp fps frame_idx\<rparr> # decode_frames read_frame fps rest
      | None \<Rightarrow> decode_frames read_frame fps rest)"

definition extract_frames ::
  "(int \<Rightarrow> 'img option) \<Rightarrow> int \<Rightarrow> real \<Rightarrow> int \<Rightarrow> 'img frame_data list" where
  "extract_frames read_frame total_frames fps num_frames =
     decode_frames read_frame fps (extract_frame_indices total_frames num_frames)"

text \<open>An entry of \<^verbatim>\<open>frame_analyses\<close> in \<^verbatim>\<open>VideoService.analyze_video\<close>.\<close>

record frame_analysis =
  timestamp :: real
  frame_number :: int
  description :: string

text \<open>
  The loop "Analyze each frame" of \<^verbatim>\<open>VideoService.analyze_video\<close>.
  \<open>analyze_video_frame\<close> is the call into the vision model with the request's prompt:
  \<open>Inr d\<close> when it returns a result whose \<^verbatim>\<open>description\<close> is \<open>d\<close>, \<open>Inl msg\<close>
  when it raises an exception with \<^verbatim>\<open>str(e) = msg\<close>.
\<close>

fun analyze_frames ::
  "('img \<Rightarrow> int \<Rightarrow> real \<Rightarrow> string + string) \<Rightarrow> 'img frame_data list \<Rightarrow> frame_analysis list" where
  "analyze_frames analyze_video_frame [] = []"
| "analyze_frames analyze_video_frame (fd # rest) =
     (case analyze_video_frame (image fd) (fd_frame_number fd) (fd_timestamp fd) of
        Inr d \<Rightarrow>
          \<lparr>timestamp = fd_timestamp fd, frame_number = fd_frame_number fd, description = d\<rparr>
      | Inl msg \<Rightarrow>
          \<lparr>timestamp = fd_timestamp fd, frame_number = fd_frame_number fd,
           description = ''Analysis failed: '' @ msg\<rparr>)
     # analyze_frames analyze_video_frame rest"

text \<open>
  \<^verbatim>\<open>_generate_video_summary\<close>. \<open>format_1f\<close> is the float formatting
  \<^verbatim>\<open>{timestamp:.1f}\<close>. The timestamp of the \<open>i\<close>-th kept description is read at
  position \<open>i\<close> of \<^verbatim>\<open>frame_analyses\<close>, as the source does; \<open>i\<close> is below the
  length of the list, so the read never fails.
\<close>

definition generate_video_summary :: "(real \<Rightarrow> string) \<Rightarrow> frame_analysis list \<Rightarrow> string" where
  "generate_video_summary format_1f frame_analyses =
     (if frame_analyses = [] then ''No frames were successfully analyzed.''
      else
        let descriptions = filter (\<lambda>d. d \<noteq> []) (map description frame_analyses)
        in if descriptions = [] then
             ''Video analysis completed but no descriptions were generated.''
           else
             let summary_parts =
                   (if length descriptions = 1 then [''This video shows: '' @ descriptions ! 0]
                    else ''This video contains the following scenes:''
                         # map (\<lambda>(i, desc).
                                  ''At '' @ format_1f (timestamp (frame_analyses ! i)) @ ''s: '' @ desc)
                               (enumerate 0 descriptions))
             in join '' '' summary_parts)"

text \<open>
  The part of \<^verbatim>\<open>VideoService.analyze_video\<close> from the extracted frames to the
  pair of \<^verbatim>\<open>frames\<close> and \<^verbatim>\<open>summary\<close> in the response.
\<close>

definition analyze_video_frames_summary ::
  "('img \<Rightarrow> int \<Rightarrow> real \<Rightarrow> string + string) \<Rightarrow> (real \<Rightarrow> string) \<Rightarrow> 'img frame_data list
     \<Rightarrow> frame_analysis list \<times> string" where
  "analyze_video_frames_summary analyze_video_frame format_1f frames_data =
     (let frame_analyses = analyze_frames analyze_video_frame frames_data
      in (frame_analyses, generate_video_summary format_1f frame_analyses))"

section \<open>Enhanced video pipeline (\<^verbatim>\<open>tests/multimodal_service.py\<close>)\<close>

text \<open>
  What \<^verbatim>\<open>aws_analyzer.analyze_image\<close> and \<^verbatim>\<open>aws_analyzer.analyze_text\<close> return:
  both catch their own exceptions and report them in the \<^verbatim>\<open>success\<close> flag.
\<close>

record image_result =
  ir_success :: bool
  ir_description :: string
  ir_model_used :: string

record text_result =
  tr_success :: bool
  tr_response :: string

text \<open>An entry of \<^verbatim>\<open>frame_analyses\<close> in \<^verbatim>\<open>_analyze_video_frames\<close>.\<close>

record mm_frame_analysis =
  mm_frame_number :: int
  mm_timestamp :: real
  mm_description :: string
  mm_model :: string




text \<open>The external resources of one run: the opened capture and the two analyzer calls.\<close>

record 'img video_env =
  is_opened :: bool
  env_total_frames :: int
  env_fps :: real
  read_frame :: "int \<Rightarrow> 'img option"
  aws_analyze_image :: "'img \<Rightarrow> string \<Rightarrow> image_result"
  aws_analyze_text :: "string \<Rightarrow> text_result"
  format_1f :: "real \<Rightarrow> string"

definition overall_summary :: "(string \<Rightarrow> text_result) \<Rightarrow> mm_frame_analysis list \<Rightarrow> string" where
  "overall_summary analyze_txt frame_analyses =
     (if frame_analyses \<noteq> [] then
        let descriptions = map mm_description frame_analyses;
            summary_prompt =
              ''Based on these video frame descriptions, provide a summary of what happens in this video: ''
              @ join '' | '' descriptions;
            summary_result = analyze_txt summary_prompt
        in if tr_success summary_result then tr_response summary_result
           else ''Could not generate summary''
      else ''No frames could be analyzed'')"



section \<open>Example inputs\<close>

text \<open>
  Concrete inputs on which the theorems below are evaluated. The example services count
  their calls in the state, so the state after a run is the number of service calls made.
\<close>

definition example_image_file :: upload_file where
  "example_image_file = \<lparr>filename = Some ''photo.JPG'', content_type = Some ''image/jpeg''\<rparr>"

definition example_audio_file :: upload_file where
  "example_audio_file = \<lparr>filename = Some ''talk.mp3'', content_type = None\<rparr>"

definition example_unknown_file :: upload_file where
  "example_unknown_file = \<lparr>filename = Some ''notes.txt'', content_type = Some ''text/plain''\<rparr>"

definition example_services :: "(nat, string) services" where
  "example_services =
     \<lparr>analyze_image = (\<lambda>file n. (Inr ''a cat'', Suc n)),
      analyze_video = (\<lambda>file n. (Inr ''a clip'', Suc n)),
      transcribe_audio = (\<lambda>file n. (Inl ''decoder crashed'', Suc n))\<rparr>"

text \<open>The float formatting \<^verbatim>\<open>{t:.1f}\<close> on the timestamps 0, 1 and 2 that the examples use.\<close>

definition example_format_1f :: "real \<Rightarrow> string" where
  "example_format_1f t = (if t = 0 then ''0.0'' else if t = 2 then ''2.0'' else ''1.0'')"

definition example_frames :: "nat frame_data list" where
  "example_frames =
     [\<lparr>image = 7, fd_frame_number = 0, fd_timestamp = 0\<rparr>,
      \<lparr>image = 8, fd_frame_number = 60, fd_timestamp = 2\<rparr>]"

text \<open>A vision model that raises on every frame, and one that describes every frame.\<close>

definition example_failing_model :: "nat \<Rightarrow> int \<Rightarrow> real \<Rightarrow> string + string" where
  "example_failing_model img frame_no ts = Inl ''boom''"

definition example_working_model :: "nat \<Rightarrow> int \<Rightarrow> real \<Rightarrow> string + string" where
  "example_working_model img frame_no ts = Inr (if frame_no = 0 then ''a dog'' else ''a ball'')"

text \<open>
  A three-frame video at one frame per second: frame 0 cannot be read, frame 1 is
  described, and the analysis of frame 2 reports failure.
\<close>

definition example_env :: "int video_env" where
  "example_env =
     \<lparr>is_opened = True,
      env_total_frames = 3,
      env_fps = 1,
      read_frame = (\<lambda>idx. if idx = 0 then None else Some idx),
      aws_analyze_image = (\<lambda>frame prompt.
         \<lparr>ir_success = (frame \<noteq> 2), ir_description = ''a street'', ir_model_used = ''nova''\<rparr>),
      aws_analyze_text = (\<lambda>prompt. \<lparr>tr_success = True, tr_response = ''summary''\<rparr>),
      format_1f = example_format_1f\<rparr>"

text \<open>
  A batch of five files in which the files at positions 1 and 3 fail: the audio service
  raises on the file at position 1, and the type of the file at position 3 cannot be
  determined. A batch of eleven files exceeds the cap.
\<close>

definition example_batch :: "upload_file list" where
  "example_batch =
     [example_image_file, example_audio_file, example_image_file, example_unknown_file,
      example_image_file]"

definition example_big_batch :: "upload_file list" where
  "example_big_batch = replicate 11 example_image_file"

section \<open>Properties of the audio feature classifier\<close>

text \<open>
  Claim C2. The audio type is "speech" exactly when the zero-crossing-rate mean is above
  0.10 and the spectral-centroid deviation is below 1000; otherwise it is "music" exactly
  when the mean is below 0.08 and the deviation is above 1000; otherwise it is "mixed".
  The boundary input 0.09 / 500 is "mixed".
\<close>

theorem detect_audio_type_decision:
  "(detect_audio_type z s = ''speech'' \<longleftrightarrow> z > 0.1 \<and> s < 1000) \<and>
   (detect_audio_type z s = ''music'' \<longleftrightarrow> \<not> (z > 0.1 \<and> s < 1000) \<and> z < 0.08 \<and> s > 1000) \<and>
   (detect_audio_type z s = ''mixed'' \<longleftrightarrow>
      \<not> (z > 0.1 \<and> s < 1000) \<and> \<not> (z < 0.08 \<and> s > 1000)) \<and>
   detect_audio_type 0.09 500 = ''mixed''"
  by (simp add: detect_audio_type_def)

theorem detect_audio_type_decision_witness:
  "detect_audio_type 0.2 500 = ''speech'' \<and> detect_audio_type 0.05 1200 = ''music'' \<and>
   detect_audio_type 0.09 500 = ''mixed''"
  using detect_audio_type_decision [of "0.2" 500] detect_audio_type_decision [of "0.05" 1200]
  by simp

text \<open>
  Claim C3. Valence is "positive" iff the spectral-centroid mean is above 2000 and the
  energy above 0.10, "negative" iff the mean is below 1500 and the energy below 0.08, and
  "neutral" otherwise; arousal is "high" iff the tempo is above 120 or the energy above
  0.15, "low" iff the tempo is below 90 and the energy below 0.08, and "medium" otherwise;
  the lookup on the pair always gives one of the nine labels of the table, never
  "Unknown".
\<close>

theorem analyze_mood_decision:
  "(valence (analyze_mood f) = ''positive'' \<longleftrightarrow>
      spectral_centroid_mean f > 2000 \<and> rms_energy_mean f > 0.1) \<and>
   (valence (analyze_mood f) = ''negative'' \<longleftrightarrow>
      spectral_centroid_mean f < 1500 \<and> rms_energy_mean f < 0.08) \<and>
   (valence (analyze_mood f) = ''neutral'' \<longleftrightarrow>
      \<not> (spectral_centroid_mean f > 2000 \<and> rms_energy_mean f > 0.1) \<and>
      \<not> (spectral_centroid_mean f < 1500 \<and> rms_energy_mean f < 0.08)) \<and>
   (arousal (analyze_mood f) = ''high'' \<longleftrightarrow> tempo f > 120 \<or> rms_energy_mean f > 0.15) \<and>
   (arousal (analyze_mood f) = ''low'' \<longleftrightarrow> tempo f < 90 \<and> rms_energy_mean f < 0.08) \<and>
   (arousal (analyze_mood f) = ''medium'' \<longleftrightarrow>
      \<not> (tempo f > 120 \<or> rms_energy_mean f > 0.15) \<and>
      \<not> (tempo f < 90 \<and> rms_energy_mean f < 0.08)) \<and>
   mood (analyze_mood f) \<in> snd ` set mood_map \<and>
   mood (analyze_mood f) \<noteq> ''Unknown''"
  by (simp add: analyze_mood_def Let_def mood_valence_def mood_arousal_def dict_get_def
      mood_map_def)

theorem analyze_mood_decision_witness:
  "valence (analyze_mood \<lparr>tempo = 130, rms_energy_mean = 0.2, spectral_centroid_mean = 2500\<rparr>)
     = ''positive'' \<and>
   arousal (analyze_mood \<lparr>tempo = 130, rms_energy_mean = 0.2, spectral_centroid_mean = 2500\<rparr>)
     = ''high'' \<and>
   mood (analyze_mood \<lparr>tempo = 130, rms_energy_mean = 0.2, spectral_centroid_mean = 2500\<rparr>)
     = ''Happy/Energetic''"
proof -
  let ?f = "\<lparr>tempo = 130, rms_energy_mean = 0.2, spectral_centroid_mean = 2500\<rparr>"
  have v: "valence (analyze_mood ?f) = ''positive''"
    using analyze_mood_decision [of ?f] by simp
  have a: "arousal (analyze_mood ?f) = ''high''"
    using analyze_mood_decision [of ?f] by simp
  have "mood (analyze_mood ?f) = dict_get mood_map (valence (analyze_mood ?f), arousal (analyze_mood ?f)) ''Unknown''"
    by (simp add: analyze_mood_def Let_def)
  then have "mood (analyze_mood ?f) = ''Happy/Energetic''"
    by (simp only: v a) (simp add: dict_get_def mood_map_def)
  with v a show ?thesis by simp
qed

text \<open>
  Claim C9. With both energies zero the instrumentalness is exactly 0.5; with a positive
  total it is the harmonic energy over the total plus \<open>1e-10\<close>. On non-negative energies
  the divisor is positive, so nothing is divided by zero, and the value lies in the unit
  interval.
\<close>

theorem instrumentalness_guard:
  "instrumentalness 0 0 = 0.5 \<and>
   (0 < h + p \<longrightarrow> instrumentalness h p = h / (h + p + 1 / 10 ^ 10)) \<and>
   (0 \<le> h \<longrightarrow> 0 \<le> p \<longrightarrow>
      0 < h + p + 1 / 10 ^ 10 \<and> 0 \<le> instrumentalness h p \<and> instrumentalness h p \<le> 1)"
  by (auto simp add: instrumentalness_def Let_def divide_le_eq)

theorem instrumentalness_guard_witness:
  "(0::real) < 3 + 1 \<and> (0::real) \<le> 3 \<and> (0::real) \<le> 1 \<and>
   instrumentalness 3 1 = 3 / (3 + 1 + 1 / 10 ^ 10) \<and>
   0 \<le> instrumentalness 3 1 \<and> instrumentalness 3 1 \<le> 1"
  using instrumentalness_guard [of 3 1] by simp


section \<open>Properties of the frame sampler\<close>

text \<open>On the integers the sampler works with, Python's true division followed by
  \<^verbatim>\<open>int\<close> is integer division.\<close>

lemma py_int_of_int_div:
  "0 \<le> a \<Longrightarrow> 0 < n \<Longrightarrow> py_int (real_of_int a / real_of_int n) = a div n"
  by (simp add: py_int_def floor_divide_of_int_eq)


lemma int_div_less_bound:
  fixes a n r :: int
  assumes "0 < n" "a < r * n"
  shows "a div n < r"
proof -
  have "(a - r * n) div n < 0"
    using assms by (simp add: pos_imp_zdiv_neg_iff)
  moreover have "(a - r * n) div n = a div n - r"
    using div_mult_self1 [of n a "- r"] assms by simp
  ultimately show ?thesis by linarith
qed

lemma scaled_index_bounds:
  fixes i n r :: int
  assumes "0 \<le> i" "i < n" "n \<le> r"
  shows "0 \<le> (i * r) div n \<and> (i * r) div n < r"
proof -
  have n0: "0 < n" using assms by linarith
  have r0: "0 < r" using assms by linarith
  have "0 \<le> i * r" using assms r0 by simp
  then have lo: "0 \<le> (i * r) div n"
    using n0 by (simp add: pos_imp_zdiv_nonneg_iff)
  have "i * r < n * r"
    using assms r0 by (simp add: mult_strict_right_mono)
  then have "i * r < r * n" by (simp add: mult.commute)
  then have "(i * r) div n < r"
    using n0 by (rule int_div_less_bound [rotated])
  with lo show ?thesis by simp
qed

lemma scaled_index_strict_mono:
  fixes i j n r :: int
  assumes "0 \<le> i" "i < j" "0 < n" "n \<le> r"
  shows "(i * r) div n < (j * r) div n"
proof -
  have r0: "0 \<le> r" using assms by linarith
  have "i + 1 \<le> j" using assms by linarith
  then have "(i + 1) * r \<le> j * r" using r0 by (rule mult_right_mono)
  then have le: "i * r + n \<le> j * r" using assms by (simp add: algebra_simps)
  have "(i * r + n) div n \<le> (j * r) div n"
    using le assms(3) by (rule zdiv_mono1)
  moreover have "(i * r + n) div n = (i * r) div n + 1" using assms by simp
  ultimately show ?thesis by linarith
qed


lemma frame_indices_all:
  "e - s < n \<Longrightarrow> frame_indices s e n = [s..e - 1]"
  by (simp add: frame_indices_def)

lemma frame_indices_spaced:
  assumes "1 \<le> n" "n \<le> e - s"
  shows "frame_indices s e n = map (\<lambda>i. s + (i * (e - s)) div n) [0..n - 1]"
proof -
  have "py_int (real_of_int (i * (e - s)) / real_of_int n) = (i * (e - s)) div n"
    if "i \<in> set [0..n - 1]" for i
  proof -
    have "0 \<le> i" using that by simp
    moreover have "0 \<le> e - s" using assms by linarith
    ultimately have "0 \<le> i * (e - s)" by simp
    moreover have "0 < n" using assms by linarith
    ultimately show ?thesis by (rule py_int_of_int_div)
  qed
  then have "map (\<lambda>i. s + py_int (real_of_int (i * (e - s)) / real_of_int n)) [0..n - 1]
           = map (\<lambda>i. s + (i * (e - s)) div n) [0..n - 1]"
    by (intro map_cong) simp_all
  then show ?thesis using assms by (simp add: frame_indices_def Let_def)
qed

lemma frame_indices_length:
  assumes "1 \<le> n"
  shows "length (frame_indices s e n) = nat (min n (e - s))"
proof (cases "e - s < n")
  case True
  then show ?thesis by (simp add: frame_indices_all min_def)
next
  case False
  then have "n \<le> e - s" by simp
  then show ?thesis using assms by (simp add: frame_indices_spaced min_def)
qed

lemma frame_indices_in_range:
  assumes "1 \<le> n" "x \<in> set (frame_indices s e n)"
  shows "s \<le> x \<and> x < e"
proof (cases "e - s < n")
  case True
  then show ?thesis using assms by (simp add: frame_indices_all)
next
  case False
  then have le: "n \<le> e - s" by simp
  from assms obtain i where i: "0 \<le> i" "i < n" and x: "x = s + (i * (e - s)) div n"
    by (auto simp: frame_indices_spaced [OF assms(1) le])
  from scaled_index_bounds [OF i le] x show ?thesis by linarith
qed

lemma frame_indices_increasing:
  assumes "1 \<le> n"
  shows "sorted_wrt (<) (frame_indices s e n)"
proof (cases "e - s < n")
  case True
  then show ?thesis by (simp add: frame_indices_all)
next
  case False
  then have le: "n \<le> e - s" by simp
  have n0: "0 < n" using assms by linarith
  have "sorted_wrt (\<lambda>i j. s + (i * (e - s)) div n < s + (j * (e - s)) div n) [0..n - 1]"
  proof (rule sorted_wrt_mono_rel [where P = "(<)"])
    fix i j assume "i \<in> set [0..n - 1]" "j \<in> set [0..n - 1]" "i < j"
    then have "0 \<le> i" by simp
    from scaled_index_strict_mono [OF this \<open>i < j\<close> n0 le]
    show "s + (i * (e - s)) div n < s + (j * (e - s)) div n" by simp
  qed simp
  then show ?thesis
    by (simp add: frame_indices_spaced [OF assms le] sorted_wrt_map)
qed

text \<open>
  The sampler of the enhanced pipeline covers its range: with at least one frame in the
  video and at least one frame requested, it returns \<open>min num_frames (e - s)\<close> indices,
  all within \<open>[s, e)\<close>, strictly increasing and so without duplicates, with or without
  a window.
\<close>

theorem sample_frames_coverage:
  assumes "1 \<le> total_frames" "1 \<le> num_frames"
    and "timeframe_boundaries total_frames fps start_time end_time = (s, e)"
  shows "length (sample_frames total_frames fps num_frames start_time end_time)
           = nat (min num_frames (e - s))
       \<and> (\<forall>x \<in> set (sample_frames total_frames fps num_frames start_time end_time).
             s \<le> x \<and> x < e)
       \<and> sorted_wrt (<) (sample_frames total_frames fps num_frames start_time end_time)
       \<and> distinct (sample_frames total_frames fps num_frames start_time end_time)"
proof -
  have eq: "sample_frames total_frames fps num_frames start_time end_time
              = frame_indices s e num_frames"
    using assms(3) by (simp add: sample_frames_def)
  have inc: "sorted_wrt (<) (frame_indices s e num_frames)"
    using assms(2) by (rule frame_indices_increasing)
  then have "distinct (frame_indices s e num_frames)"
    by (simp add: strict_sorted_iff)
  with inc show ?thesis
    using frame_indices_length [OF assms(2)] frame_indices_in_range [OF assms(2)]
    by (auto simp: eq)
qed

lemma sample_frames_end_to_end:
  "sample_frames 300 30 5 None None = [0, 60, 120, 180, 240]"
  by (simp add: sample_frames_def timeframe_boundaries_def frame_indices_def py_int_def
      Let_def upto.simps)

text \<open>
  Claim C1. The sampler returns \<open>min desiredCount rangeSize\<close> indices, each within the
  range, strictly increasing and without duplicates. The sampler of the enhanced pipeline
  does (\<open>sample_frames_coverage\<close>); \<^verbatim>\<open>VideoService._extract_frames\<close> has no branch for
  a video with fewer frames than requested: on a three-frame video with the default five
  frames it returns five indices, two of them twice, and decodes the same frames twice.
\<close>

theorem extract_frame_indices_short_video:
  "extract_frame_indices 3 5 = [0, 0, 1, 1, 2]
   \<and> length (extract_frame_indices 3 5) = 5
   \<and> nat (min 5 (3 - 0)) = 3
   \<and> \<not> distinct (extract_frame_indices 3 5)
   \<and> \<not> sorted_wrt (<) (extract_frame_indices 3 5)
   \<and> map fd_frame_number (extract_frames (\<lambda>idx. Some idx) 3 30 5) = [0, 0, 1, 1, 2]
   \<and> sample_frames 3 30 5 None None = [0, 1, 2]"
  by (simp add: extract_frames_def extract_frame_indices_def sample_frames_def
      timeframe_boundaries_def frame_indices_def py_int_def Let_def upto.simps)




section \<open>Properties of the batch orchestrator\<close>

lemma process_files_Cons:
  "process_files svc i (f # fs) s =
     (item_result_of i f (fst (analyze_file svc f s))
        # fst (process_files svc (Suc i) fs (snd (analyze_file svc f s))),
      snd (process_files svc (Suc i) fs (snd (analyze_file svc f s))))"
  by (simp split: prod.splits)

lemma process_files_length:
  "length (fst (process_files svc i files s)) = length files"
  by (induction files arbitrary: i s) (simp_all add: process_files_Cons del: process_files.simps(2))


lemma process_files_nth:
  assumes "k < length files"
  shows "fst (process_files svc i files s) ! k
           = item_result_of (i + k) (files ! k)
               (fst (analyze_file svc (files ! k) (snd (process_files svc i (take k files) s))))"
  using assms
proof (induction files arbitrary: i s k)
  case Nil
  then show ?case by simp
next
  case (Cons f fs)
  show ?case
  proof (cases k)
    case 0
    then show ?thesis by (simp add: process_files_Cons del: process_files.simps(2))
  next
    case (Suc k')
    with Cons.prems have "k' < length fs" by simp
    from Cons.IH [OF this] Suc show ?thesis
      by (simp add: process_files_Cons del: process_files.simps(2))
  qed
qed

lemma process_files_indices:
  "map file_index (fst (process_files svc i files s)) = [i..<i + length files]"
proof (induction files arbitrary: i s)
  case Nil
  then show ?case by simp
next
  case (Cons f fs)
  have "map file_index (fst (process_files svc i (f # fs) s))
          = i # map file_index (fst (process_files svc (Suc i) fs (snd (analyze_file svc f s))))"
    by (simp add: process_files_Cons item_result_of_def del: process_files.simps(2)
        split: sum.splits prod.splits)
  also have "\<dots> = i # [Suc i..<Suc i + length fs]" by (simp only: Cons.IH)
  also have "\<dots> = [i..<i + length (f # fs)]" by (simp add: upt_rec)
  finally show ?case .
qed

lemma process_files_filenames:
  "map item_filename (fst (process_files svc i files s)) = map filename files"
  by (induction files arbitrary: i s)
     (simp_all add: process_files_Cons item_result_of_def del: process_files.simps(2)
        split: sum.splits prod.splits)

lemma process_files_success:
  assumes "k < length files"
  shows "success (fst (process_files svc i files s) ! k)
           \<longleftrightarrow> \<not> isl (fst (analyze_file svc (files ! k)
                                (snd (process_files svc i (take k files) s))))"
  by (simp add: process_files_nth [OF assms] item_result_of_def split: sum.splits)




lemma analyze_batch_accepted:
  assumes "analyze_batch is_ready svc files s = (Inr d, s')"
  shows "is_ready \<and> length files \<le> 10
       \<and> results d = fst (process_files svc 0 files s)
       \<and> total_files d = length files
       \<and> successful d = length (filter (\<lambda>r. success r) (results d))
       \<and> failed d = length (filter (\<lambda>r. \<not> success r) (results d))
       \<and> s' = snd (process_files svc 0 files s)"
  using assms
  by (auto simp: analyze_batch_def split: if_splits prod.splits)

lemma example_batch_run:
  "analyze_batch True example_services example_batch 0 =
   (Inr \<lparr>results =
      [\<lparr>file_index = 0, item_filename = Some ''photo.JPG'', file_type = Some ''image'',
        success = True, result = Some ''a cat'', error = None\<rparr>,
       \<lparr>file_index = 1, item_filename = Some ''talk.mp3'', file_type = None,
        success = False, result = None, error = Some ''decoder crashed''\<rparr>,
       \<lparr>file_index = 2, item_filename = Some ''photo.JPG'', file_type = Some ''image'',
        success = True, result = Some ''a cat'', error = None\<rparr>,
       \<lparr>file_index = 3, item_filename = Some ''notes.txt'', file_type = None,
        success = False, result = None,
        error = Some ''Unable to determine file type for notes.txt''\<rparr>,
       \<lparr>file_index = 4, item_filename = Some ''photo.JPG'', file_type = Some ''image'',
        success = True, result = Some ''a cat'', error = None\<rparr>],
      total_files = 5, successful = 3, failed = 2\<rparr>, 4)"
  by code_simp



text \<open>
  Claim C5. The entries of a completed batch are in input order, one per input file, and
  the counts satisfy \<open>successful + failed = total_files = length results\<close>.
\<close>

theorem batch_result_invariant:
  assumes "analyze_batch is_ready svc files s = (Inr d, s')"
  shows "length (results d) = length files
       \<and> map file_index (results d) = [0..<length files]
       \<and> map item_filename (results d) = map filename files
       \<and> successful d + failed d = total_files d
       \<and> total_files d = length (results d)"
proof -
  from analyze_batch_accepted [OF assms]
  have r: "results d = fst (process_files svc 0 files s)"
    and t: "total_files d = length files"
    and c: "successful d = length (filter (\<lambda>r. success r) (results d))"
           "failed d = length (filter (\<lambda>r. \<not> success r) (results d))" by simp_all
  have len: "length (results d) = length files" by (simp add: r process_files_length)
  have idx: "map file_index (results d) = [0..<length files]"
    using process_files_indices [of svc 0 files s] by (simp add: r)
  have names: "map item_filename (results d) = map filename files"
    by (simp add: r process_files_filenames)
  have "successful d + failed d = length (results d)"
    by (simp only: c sum_length_filter_compl)
  with len idx names t show ?thesis by simp
qed

theorem batch_result_invariant_witness:
  "map file_index (results (projr (fst (analyze_batch True example_services example_batch 0))))
     = [0, 1, 2, 3, 4]
   \<and> map success (results (projr (fst (analyze_batch True example_services example_batch 0))))
     = [True, False, True, False, True]
   \<and> successful (projr (fst (analyze_batch True example_services example_batch 0))) = 3
   \<and> failed (projr (fst (analyze_batch True example_services example_batch 0))) = 2
   \<and> total_files (projr (fst (analyze_batch True example_services example_batch 0))) = 5"
  using batch_result_invariant [OF example_batch_run]
  by (simp add: example_batch_run)

text \<open>
  Claim C8, as the code has it. A batch of more than ten files is rejected before any
  file is analyzed: the result is an error and the state is untouched. A batch of ten or
  fewer files is orchestrated when the models are loaded; when they are not, every
  request is rejected with status 503, whatever its size.
\<close>

theorem batch_size_cap:
  "(10 < length files \<longrightarrow> isl (fst (analyze_batch is_ready svc files s))
                          \<and> snd (analyze_batch is_ready svc files s) = s) \<and>
   (is_ready \<and> 10 < length files \<longrightarrow>
      analyze_batch is_ready svc files s
        = (Inl (HTTPException 400 ''Maximum 10 files allowed per batch request''), s)) \<and>
   (\<not> is_ready \<longrightarrow>
      analyze_batch is_ready svc files s
        = (Inl (HTTPException 503
                 ''Models not loaded. Please wait for initialization to complete.''), s)) \<and>
   (is_ready \<and> length files \<le> 10 \<longrightarrow>
      \<not> isl (fst (analyze_batch is_ready svc files s))
      \<and> results (projr (fst (analyze_batch is_ready svc files s)))
          = fst (process_files svc 0 files s)
      \<and> snd (analyze_batch is_ready svc files s) = snd (process_files svc 0 files s))"
  by (auto simp: analyze_batch_def split: prod.splits)

theorem batch_size_cap_witness:
  "analyze_batch True example_services example_big_batch 0
     = (Inl (HTTPException 400 ''Maximum 10 files allowed per batch request''), 0)
   \<and> \<not> isl (fst (analyze_batch True example_services example_batch 0))
   \<and> snd (analyze_batch True example_services example_batch 0) = 4
   \<and> analyze_batch False example_services example_batch 0
     = (Inl (HTTPException 503
              ''Models not loaded. Please wait for initialization to complete.''), 0)"
proof -
  have big: "10 < length example_big_batch" by (simp add: example_big_batch_def)
  have small: "length example_batch \<le> 10" by (simp add: example_batch_def)
  from batch_size_cap [of example_big_batch True example_services 0] big
    batch_size_cap [of example_batch True example_services 0] small
    batch_size_cap [of example_batch False example_services 0]
  show ?thesis by (simp add: example_batch_run)
qed

text \<open>
  A batch of one file is within the cap and is still rejected when the models are not
  loaded: no file is analyzed (the call counter stays 0).
\<close>

theorem batch_size_cap_counterexample:
  "length [example_image_file] \<le> 10
   \<and> analyze_batch False example_services [example_image_file] 0
       = (Inl (HTTPException 503
                ''Models not loaded. Please wait for initialization to complete.''), 0)"
  by (simp add: analyze_batch_def)

section \<open>Properties of the video summaries\<close>

lemma map_enumerate_nth:
  "map (\<lambda>(i, d). g (fa ! i) d) (enumerate 0 (map h fa)) = map (\<lambda>f. g f (h f)) fa"
  by (rule nth_equalityI) (simp_all add: nth_enumerate_eq)

lemma generate_video_summary_single:
  assumes "filter (\<lambda>d. d \<noteq> []) (map description fa) = [d]"
  shows "generate_video_summary fmt fa = ''This video shows: '' @ d"
proof -
  have "fa \<noteq> []" using assms by auto
  then show ?thesis using assms by (simp add: generate_video_summary_def Let_def)
qed

lemma generate_video_summary_many:
  assumes "2 \<le> length fa" "\<forall>f \<in> set fa. description f \<noteq> []"
  shows "generate_video_summary fmt fa =
           join '' '' (''This video contains the following scenes:''
                       # map (\<lambda>f. ''At '' @ fmt (timestamp f) @ ''s: '' @ description f) fa)"
proof -
  have ne: "fa \<noteq> []" using assms(1) by auto
  have keep: "filter (\<lambda>d. d \<noteq> []) (map description fa) = map description fa"
    using assms(2) by (simp add: filter_id_conv)
  have len: "length (map description fa) \<noteq> 1" using assms(1) by simp
  have m: "map (\<lambda>(i, desc). ''At '' @ fmt (timestamp (fa ! i)) @ ''s: '' @ desc)
               (enumerate 0 (map description fa))
         = map (\<lambda>f. ''At '' @ fmt (timestamp f) @ ''s: '' @ description f) fa"
    by (rule map_enumerate_nth [of "\<lambda>f d. ''At '' @ fmt (timestamp f) @ ''s: '' @ d" fa description])
  have "generate_video_summary fmt fa =
          join '' '' (''This video contains the following scenes:''
                      # map (\<lambda>(i, desc). ''At '' @ fmt (timestamp (fa ! i)) @ ''s: '' @ desc)
                            (enumerate 0 (map description fa)))"
    using ne len by (simp add: generate_video_summary_def Let_def keep)
  then show ?thesis by (simp only: m)
qed

lemma generate_video_summary_blank:
  assumes "fa \<noteq> []" "\<forall>f \<in> set fa. description f = []"
  shows "generate_video_summary fmt fa =
           ''Video analysis completed but no descriptions were generated.''"
proof -
  have "filter (\<lambda>d. d \<noteq> []) (map description fa) = []"
    using assms(2) by (simp add: filter_empty_conv)
  then show ?thesis using assms(1) by (simp add: generate_video_summary_def Let_def)
qed

lemma analyze_frames_single_failure:
  assumes "a (image fd) (fd_frame_number fd) (fd_timestamp fd) = Inl msg"
  shows "snd (analyze_video_frames_summary a fmt [fd])
           = ''This video shows: Analysis failed: '' @ msg"
  using assms
  by (simp add: analyze_video_frames_summary_def generate_video_summary_def Let_def)

lemma overall_summary_cases:
  "overall_summary summarize [] = ''No frames could be analyzed'' \<and>
   (mfa \<noteq> [] \<longrightarrow>
      overall_summary summarize mfa =
        (if tr_success (summarize (''Based on these video frame descriptions, provide a summary of what happens in this video: ''
                             @ join '' | '' (map mm_description mfa)))
         then tr_response (summarize (''Based on these video frame descriptions, provide a summary of what happens in this video: ''
                                @ join '' | '' (map mm_description mfa)))
         else ''Could not generate summary''))"
  by (simp add: overall_summary_def Let_def)

text \<open>
  When an entry with an empty description precedes described ones, the clause of the
  \<open>i\<close>-th kept description takes the timestamp of the \<open>i\<close>-th entry of the unfiltered
  list: here the descriptions of the frames at 1 s and 2 s are reported at 0 s and 1 s.
\<close>

lemma generate_video_summary_shifted_timestamps:
  "generate_video_summary example_format_1f
     [\<lparr>timestamp = 0, frame_number = 0, description = []\<rparr>,
      \<lparr>timestamp = 1, frame_number = 30, description = ''a dog''\<rparr>,
      \<lparr>timestamp = 2, frame_number = 60, description = ''a ball''\<rparr>]
   = ''This video contains the following scenes: At 0.0s: a dog At 1.0s: a ball''"
  by (simp add: generate_video_summary_def example_format_1f_def Let_def enumerate_eq_zip)

text \<open>
  Claim C6, as the code has it. \<^verbatim>\<open>_generate_video_summary\<close> works on the list of frame
  analyses, in which a frame whose analysis raised still stands, described as
  "Analysis failed: ..." . An empty list gives "No frames were successfully analyzed.";
  a list without any non-empty description gives "Video analysis completed but no
  descriptions were generated."; exactly one non-empty description \<open>d\<close> gives
  "This video shows: d"; two or more entries, all described, give the heading
  "This video contains the following scenes:" followed by one clause "At t s: d" per
  entry in list order, joined by single spaces. In the enhanced pipeline the summary is
  "No frames could be analyzed" without frames, and otherwise the answer of the text
  model, or "Could not generate summary" when that call fails.
\<close>

theorem video_summary_cases:
  "generate_video_summary fmt [] = ''No frames were successfully analyzed.'' \<and>
   analyze_video_frames_summary a fmt [] = ([], ''No frames were successfully analyzed.'') \<and>
   (a (image fd) (fd_frame_number fd) (fd_timestamp fd) = Inl msg \<longrightarrow>
      snd (analyze_video_frames_summary a fmt [fd])
        = ''This video shows: Analysis failed: '' @ msg) \<and>
   (fa \<noteq> [] \<and> (\<forall>f \<in> set fa. description f = []) \<longrightarrow>
      generate_video_summary fmt fa
        = ''Video analysis completed but no descriptions were generated.'') \<and>
   (filter (\<lambda>d. d \<noteq> []) (map description fa) = [d] \<longrightarrow>
      generate_video_summary fmt fa = ''This video shows: '' @ d) \<and>
   (2 \<le> length fa \<and> (\<forall>f \<in> set fa. description f \<noteq> []) \<longrightarrow>
      generate_video_summary fmt fa =
        join '' '' (''This video contains the following scenes:''
                    # map (\<lambda>f. ''At '' @ fmt (timestamp f) @ ''s: '' @ description f) fa)) \<and>
   overall_summary summarize [] = ''No frames could be analyzed'' \<and>
   (mfa \<noteq> [] \<and> \<not> tr_success (summarize (''Based on these video frame descriptions, provide a summary of what happens in this video: ''
                                     @ join '' | '' (map mm_description mfa))) \<longrightarrow>
      overall_summary summarize mfa = ''Could not generate summary'') \<and>
   (mfa \<noteq> [] \<and> tr_success (summarize (''Based on these video frame descriptions, provide a summary of what happens in this video: ''
                                  @ join '' | '' (map mm_description mfa))) \<longrightarrow>
      overall_summary summarize mfa =
        tr_response (summarize (''Based on these video frame descriptions, provide a summary of what happens in this video: ''
                          @ join '' | '' (map mm_description mfa))))"
proof -
  have empty1: "generate_video_summary fmt [] = ''No frames were successfully analyzed.''"
    by (simp add: generate_video_summary_def)
  have empty2: "analyze_video_frames_summary a fmt [] = ([], ''No frames were successfully analyzed.'')"
    by (simp add: analyze_video_frames_summary_def generate_video_summary_def)
  show ?thesis
    using empty1 empty2 analyze_frames_single_failure [of a fd msg fmt]
      generate_video_summary_blank [of fa fmt] generate_video_summary_single [of fa d fmt]
      generate_video_summary_many [of fa fmt] overall_summary_cases [of summarize mfa]
    by (simp only: simp_thms) simp
qed

theorem video_summary_cases_witness:
  "generate_video_summary example_format_1f
     (analyze_frames example_working_model example_frames)
     = ''This video contains the following scenes: At 0.0s: a dog At 2.0s: a ball''
   \<and> snd (analyze_video_frames_summary example_failing_model example_format_1f
            [\<lparr>image = 7, fd_frame_number = 0, fd_timestamp = 0\<rparr>])
     = ''This video shows: Analysis failed: boom''"
proof -
  have fa: "analyze_frames example_working_model example_frames
              = [\<lparr>timestamp = 0, frame_number = 0, description = ''a dog''\<rparr>,
                 \<lparr>timestamp = 2, frame_number = 60, description = ''a ball''\<rparr>]"
    by (simp add: example_working_model_def example_frames_def)
  have fail: "example_failing_model (image \<lparr>image = 7, fd_frame_number = 0, fd_timestamp = 0\<rparr>)
                (fd_frame_number \<lparr>image = 7, fd_frame_number = 0, fd_timestamp = 0\<rparr>)
                (fd_timestamp \<lparr>image = 7, fd_frame_number = 0, fd_timestamp = 0\<rparr>) = Inl ''boom''"
    by (simp add: example_failing_model_def)
  show ?thesis
    using video_summary_cases
            [of example_format_1f example_failing_model
                "\<lparr>image = 7, fd_frame_number = 0, fd_timestamp = 0\<rparr>" "''boom''"
                "analyze_frames example_working_model example_frames"] fail
    by (simp add: fa example_format_1f_def)
qed

text \<open>
  The summary is not what the claim states in two cases. When the only frame's analysis
  raises, no frame has succeeded and the summary is not the fixed literal; with two
  successful frames the summary is not the joined clauses alone, it starts with a
  heading. The enhanced pipeline has a different literal for the case without frames.
\<close>

theorem video_summary_counterexample:
  "snd (analyze_video_frames_summary example_failing_model example_format_1f
          [\<lparr>image = 7, fd_frame_number = 0, fd_timestamp = 0\<rparr>])
     = ''This video shows: Analysis failed: boom''
   \<and> snd (analyze_video_frames_summary example_working_model example_format_1f example_frames)
     = ''This video contains the following scenes: At 0.0s: a dog At 2.0s: a ball''
   \<and> snd (analyze_video_frames_summary example_failing_model example_format_1f
            [\<lparr>image = 7, fd_frame_number = 0, fd_timestamp = 0\<rparr>])
     \<noteq> ''No frames were successfully analyzed.''
   \<and> snd (analyze_video_frames_summary example_working_model example_format_1f example_frames)
     \<noteq> join '' '' [''At 0.0s: a dog'', ''At 2.0s: a ball'']
   \<and> overall_summary (aws_analyze_text example_env) [] = ''No frames could be analyzed''
   \<and> overall_summary (aws_analyze_text example_env) []
     \<noteq> ''No frames were successfully analyzed.''"
  by (simp add: analyze_video_frames_summary_def example_failing_model_def
      example_working_model_def example_frames_def generate_video_summary_def
      example_format_1f_def overall_summary_def Let_def enumerate_eq_zip)

section \<open>Properties of the enhanced video pipeline\<close>




end
